theory Spec2Isabelle
  imports Main
begin

section \<open>Exceptions and HTTP outcomes\<close>

text \<open>
  Whatever the domain layer raises is a Python exception: a class and the text that
  \<^verbatim>\<open>str(e)\<close> gives. \<open>NotFound\<close>, \<open>ValidationError\<close> and \<open>StorageError\<close> derive
  from \<^verbatim>\<open>Exception\<close>; \<open>KeyboardInterrupt\<close> derives from \<^verbatim>\<open>BaseException\<close> only, so
  an \<^verbatim>\<open>except Exception\<close> clause does not catch it.
\<close>

datatype exc_class = NotFound | ValidationError | StorageError | KeyboardInterrupt

datatype exc = Exc exc_class string

fun is_Exception :: "exc \<Rightarrow> bool" where
  "is_Exception (Exc KeyboardInterrupt _) = False"
| "is_Exception (Exc _ _) = True"

fun str_exc :: "exc \<Rightarrow> string" where
  "str_exc (Exc _ msg) = msg"

text \<open>
  An endpoint fails in one of three ways: the framework rejects a query parameter that
  breaks its \<^verbatim>\<open>Query(...)\<close> bounds before the body runs, the body raises
  \<^verbatim>\<open>HTTPException(status_code, detail)\<close>, or an exception of the use case leaves the
  body uncaught.
\<close>

datatype failure =
    RequestValidationError
  | HTTPException int string
  | Uncaught exc

record 'a response =
  status_code :: int
  content :: 'a

section \<open>Entities\<close>

text \<open>
  \<^verbatim>\<open>PaginatedProductList(items=..., total_items=...)\<close>, as the listing endpoint
  builds it. The product type itself is a parameter of the development.
\<close>

record 'p PaginatedProductList =
  items :: "'p list"
  total_items :: int

section \<open>The use case object\<close>

text \<open>
  The endpoints talk to the module-level \<^verbatim>\<open>products_use_case\<close> only. It is taken as
  a parameter: five operations over a store \<open>'s\<close>, each returning the value or the
  exception raised together with the store afterwards. \<^verbatim>\<open>get_product_by_id\<close> and
  \<^verbatim>\<open>update_product\<close> may hand back \<^verbatim>\<open>None\<close>, which the endpoints test for with
  \<^verbatim>\<open>if product:\<close>; a product object is truthy, \<^verbatim>\<open>None\<close> is not.
\<close>

record ('s, 'p, 'c, 'u) ProductsUseCase =
  uc_get_products :: "'s \<Rightarrow> (exc + 'p list) \<times> 's"
  uc_get_product_by_id :: "int \<Rightarrow> 's \<Rightarrow> (exc + 'p option) \<times> 's"
  uc_create_product :: "'c \<Rightarrow> 's \<Rightarrow> (exc + 'p) \<times> 's"
  uc_update_product :: "int \<Rightarrow> 'u \<Rightarrow> 's \<Rightarrow> (exc + 'p option) \<times> 's"
  uc_delete_product :: "int \<Rightarrow> 's \<Rightarrow> (exc + unit) \<times> 's"

section \<open>List slicing\<close>

text \<open>
  \<^verbatim>\<open>xs[start:stop]\<close> with step 1: a negative index counts from the end, and both
  indices are clamped to \<open>0..len(xs)\<close>; the slice is empty when they cross.
\<close>

definition slice_index :: "int \<Rightarrow> int \<Rightarrow> nat" where
  "slice_index n i =
     (if i < 0 then (if i + n < 0 then 0 else nat (i + n))
      else if n \<le> i then nat n else nat i)"

definition py_slice :: "'a list \<Rightarrow> int \<Rightarrow> int \<Rightarrow> 'a list" where
  "py_slice xs start stop =
     (let n = int (length xs);
          lo = slice_index n start;
          hi = slice_index n stop
      in if lo < hi then take (hi - lo) (drop lo xs) else [])"

section \<open>The endpoints\<close>

text \<open>\<^verbatim>\<open>GET /products\<close>, with \<^verbatim>\<open>page: Query(1, gt=0)\<close> and
  \<^verbatim>\<open>size_page: Query(10, gt=0, le=100)\<close>.\<close>

definition get_products ::
  "('s, 'p, 'c, 'u) ProductsUseCase \<Rightarrow> int \<Rightarrow> int \<Rightarrow> 's
     \<Rightarrow> (failure + 'p PaginatedProductList response) \<times> 's" where
  "get_products uc page size_page s =
     (if \<not> (0 < page) \<or> \<not> (0 < size_page \<and> size_page \<le> 100)
      then (Inl RequestValidationError, s)
      else
        (case uc_get_products uc s of
           (Inl e, s') \<Rightarrow> (Inl (Uncaught e), s')
         | (Inr all_products, s') \<Rightarrow>
             (let start_idx = (page - 1) * size_page;
                  end_idx = start_idx + size_page
              in (Inr \<lparr>status_code = 200,
                       content = \<lparr>items = py_slice all_products start_idx end_idx,
                                  total_items = int (length all_products)\<rparr>\<rparr>, s'))))"

text \<open>\<^verbatim>\<open>GET /products/{product_id}\<close>: a falsy result of the use case is a 404.\<close>

definition get_product ::
  "('s, 'p, 'c, 'u) ProductsUseCase \<Rightarrow> int \<Rightarrow> 's \<Rightarrow> (failure + 'p response) \<times> 's" where
  "get_product uc product_id s =
     (case uc_get_product_by_id uc product_id s of
        (Inl e, s') \<Rightarrow> (Inl (Uncaught e), s')
      | (Inr (Some product), s') \<Rightarrow> (Inr \<lparr>status_code = 200, content = product\<rparr>, s')
      | (Inr None, s') \<Rightarrow> (Inl (HTTPException 404 ''Product not found''), s'))"

text \<open>\<^verbatim>\<open>POST /products\<close>: the call sits in \<^verbatim>\<open>try ... except Exception as e\<close>, which
  turns what it catches into \<^verbatim>\<open>HTTPException(400, str(e))\<close>.\<close>

definition create_product ::
  "('s, 'p, 'c, 'u) ProductsUseCase \<Rightarrow> 'c \<Rightarrow> 's \<Rightarrow> (failure + 'p response) \<times> 's" where
  "create_product uc product_body s =
     (case uc_create_product uc product_body s of
        (Inr new_product, s') \<Rightarrow> (Inr \<lparr>status_code = 201, content = new_product\<rparr>, s')
      | (Inl e, s') \<Rightarrow>
          (if is_Exception e then (Inl (HTTPException 400 (str_exc e)), s')
           else (Inl (Uncaught e), s')))"

text \<open>\<^verbatim>\<open>PUT /products/{product_id}\<close>.\<close>

definition update_product ::
  "('s, 'p, 'c, 'u) ProductsUseCase \<Rightarrow> int \<Rightarrow> 'u \<Rightarrow> 's \<Rightarrow> (failure + 'p response) \<times> 's" where
  "update_product uc product_id update_body s =
     (case uc_update_product uc product_id update_body s of
        (Inl e, s') \<Rightarrow> (Inl (Uncaught e), s')
      | (Inr (Some updated_product), s') \<Rightarrow>
          (Inr \<lparr>status_code = 200, content = updated_product\<rparr>, s')
      | (Inr None, s') \<Rightarrow> (Inl (HTTPException 404 ''Product not found''), s'))"

text \<open>\<^verbatim>\<open>DELETE /products/{product_id}\<close>: the result of the use case is dropped and
  the body answers with a fixed JSON message.\<close>

definition delete_product ::
  "('s, 'p, 'c, 'u) ProductsUseCase \<Rightarrow> int \<Rightarrow> 's
     \<Rightarrow> (failure + (string \<times> string) list response) \<times> 's" where
  "delete_product uc product_id s =
     (case uc_delete_product uc product_id s of
        (Inl e, s') \<Rightarrow> (Inl (Uncaught e), s')
      | (Inr _, s') \<Rightarrow>
          (Inr \<lparr>status_code = 200,
                content = [(''message'', ''Product deleted successfully'')]\<rparr>, s'))"

section \<open>The composition root\<close>

text \<open>
  \<^verbatim>\<open>class ProductsRepository(ABC)\<close> declares five methods, each under
  \<^verbatim>\<open>@abstractmethod\<close>, and no \<^verbatim>\<open>__init__\<close>. A class is described by its name,
  whether \<^verbatim>\<open>ABC\<close> is among its bases, and its methods with their abstract flag.
\<close>

record method_def =
  method_name :: string
  is_abstractmethod :: bool

record py_class =
  class_name :: string
  abc_base :: bool
  methods :: "method_def list"

definition ProductsRepository_class :: py_class where
  "ProductsRepository_class =
     \<lparr>class_name = ''ProductsRepository'',
      abc_base = True,
      methods =
        [\<lparr>method_name = ''get_products'', is_abstractmethod = True\<rparr>,
         \<lparr>method_name = ''get_product_by_id'', is_abstractmethod = True\<rparr>,
         \<lparr>method_name = ''create_product'', is_abstractmethod = True\<rparr>,
         \<lparr>method_name = ''update_product'', is_abstractmethod = True\<rparr>,
         \<lparr>method_name = ''delete_product'', is_abstractmethod = True\<rparr>]\<rparr>"

text \<open>The names the metaclass collects into \<^verbatim>\<open>__abstractmethods__\<close>.\<close>

definition abstractmethods :: "py_class \<Rightarrow> string list" where
  "abstractmethods cls =
     (if abc_base cls
      then map method_name (filter is_abstractmethod (methods cls))
      else [])"

text \<open>
  Calling a class. Both failures are a \<^verbatim>\<open>TypeError\<close>: arguments given to a class
  that defines no \<^verbatim>\<open>__init__\<close> ("takes no arguments"), then a non-empty
  \<^verbatim>\<open>__abstractmethods__\<close> ("can't instantiate abstract class"), checked in this
  order. Otherwise an instance of the class is made.
\<close>

datatype type_error =
    TakesNoArguments string
  | AbstractClass string "string list"

definition instantiate :: "py_class \<Rightarrow> string list \<Rightarrow> type_error + py_class" where
  "instantiate cls args =
     (if args \<noteq> [] \<and> ''__init__'' \<notin> set (map method_name (methods cls))
      then Inl (TakesNoArguments (class_name cls))
      else if abstractmethods cls \<noteq> []
      then Inl (AbstractClass (class_name cls) (abstractmethods cls))
      else Inr cls)"

definition db_url :: string where
  "db_url = ''sqlite:///products.db''"

definition products_repository :: "type_error + py_class" where
  "products_repository = instantiate ProductsRepository_class [db_url]"

section \<open>A reference repository and the forwarding use case\<close>

text \<open>
  Modelled from the spec: the product entity of \<^verbatim>\<open>domain/products_entities.py\<close>,
  which is not among the sources. A product is an identifier assigned by storage and
  the attributes a creation request carries (name and further descriptive fields, whose
  shape is open).
\<close>

record 'b Product =
  ident :: int
  attrs :: 'b

text \<open>
  Modelled from the spec: a concrete repository, of which the sources hold the abstract
  interface only. The store keeps the products in creation order and the next fresh
  identifier; identifiers are never reused. Each operation follows the contract of the
  repository interface: lookup, update and delete fail with \<open>NotFound\<close> on an absent
  identifier, creation fails with \<open>ValidationError\<close> on an invalid request and otherwise
  stores the request under a fresh identifier and returns the stored entity.
\<close>

record 'b store =
  rows :: "'b Product list"
  next_id :: int

definition mem_get_products :: "'b store \<Rightarrow> (exc + 'b Product list) \<times> 'b store" where
  "mem_get_products s = (Inr (rows s), s)"

definition mem_get_product_by_id ::
  "int \<Rightarrow> 'b store \<Rightarrow> (exc + 'b Product option) \<times> 'b store" where
  "mem_get_product_by_id product_id s =
     (case find (\<lambda>p. ident p = product_id) (rows s) of
        None \<Rightarrow> (Inl (Exc NotFound ''Product not found''), s)
      | Some p \<Rightarrow> (Inr (Some p), s))"

definition mem_create_product ::
  "('b \<Rightarrow> bool) \<Rightarrow> 'b \<Rightarrow> 'b store \<Rightarrow> (exc + 'b Product) \<times> 'b store" where
  "mem_create_product valid product s =
     (if \<not> valid product then (Inl (Exc ValidationError ''Invalid product''), s)
      else
        (let p = \<lparr>ident = next_id s, attrs = product\<rparr>
         in (Inr p, \<lparr>rows = rows s @ [p], next_id = next_id s + 1\<rparr>)))"

definition mem_update_product ::
  "('u \<Rightarrow> 'b \<Rightarrow> 'b) \<Rightarrow> int \<Rightarrow> 'u \<Rightarrow> 'b store \<Rightarrow> (exc + 'b Product option) \<times> 'b store" where
  "mem_update_product apply_update product_id update_body s =
     (case find (\<lambda>p. ident p = product_id) (rows s) of
        None \<Rightarrow> (Inl (Exc NotFound ''Product not found''), s)
      | Some p \<Rightarrow>
          (let p' = p\<lparr>attrs := apply_update update_body (attrs p)\<rparr>
           in (Inr (Some p'),
               s\<lparr>rows := map (\<lambda>q. if ident q = product_id then p' else q) (rows s)\<rparr>)))"

definition mem_delete_product :: "int \<Rightarrow> 'b store \<Rightarrow> (exc + unit) \<times> 'b store" where
  "mem_delete_product product_id s =
     (case find (\<lambda>p. ident p = product_id) (rows s) of
        None \<Rightarrow> (Inl (Exc NotFound ''Product not found''), s)
      | Some _ \<Rightarrow> (Inr (), s\<lparr>rows := filter (\<lambda>q. ident q \<noteq> product_id) (rows s)\<rparr>))"

text \<open>
  Modelled from the spec: the use case class of \<^verbatim>\<open>domain/products_usecase.py\<close>, which
  is not among the sources. Each of its methods forwards to the repository operation of
  the same name and passes its result or failure through unchanged. Here it is built over
  the reference repository.
\<close>

definition ProductsUseCase_init ::
  "('b \<Rightarrow> bool) \<Rightarrow> ('u \<Rightarrow> 'b \<Rightarrow> 'b) \<Rightarrow> ('b store, 'b Product, 'b, 'u) ProductsUseCase" where
  "ProductsUseCase_init valid apply_update =
     \<lparr>uc_get_products = mem_get_products,
      uc_get_product_by_id = mem_get_product_by_id,
      uc_create_product = mem_create_product valid,
      uc_update_product = mem_update_product apply_update,
      uc_delete_product = mem_delete_product\<rparr>"

text \<open>Identifiers in the store are distinct and below the next fresh one.\<close>

definition store_ok :: "'b store \<Rightarrow> bool" where
  "store_ok s \<longleftrightarrow> distinct (map ident (rows s)) \<and> list_all (\<lambda>p. ident p < next_id s) (rows s)"

section \<open>A use case double\<close>

text \<open>
  For concrete runs of the endpoints: a use case whose five operations answer with fixed
  outcomes and leave the store as it is.
\<close>

definition stub_use_case ::
  "(exc + 'p list) \<Rightarrow> (exc + 'p option) \<Rightarrow> (exc + 'p) \<Rightarrow> (exc + 'p option) \<Rightarrow> (exc + unit)
     \<Rightarrow> ('s, 'p, 'c, 'u) ProductsUseCase" where
  "stub_use_case listed found created updated deleted =
     \<lparr>uc_get_products = Pair listed,
      uc_get_product_by_id = (\<lambda>product_id. Pair found),
      uc_create_product = (\<lambda>product. Pair created),
      uc_update_product = (\<lambda>product_id update_body. Pair updated),
      uc_delete_product = (\<lambda>product_id. Pair deleted)\<rparr>"

section \<open>Slicing lemmas\<close>

lemma py_slice_window:
  assumes "0 \<le> start" and "0 \<le> len"
  shows "py_slice xs start (start + len) = take (nat len) (drop (nat start) xs)"
proof (cases "int (length xs) \<le> start")
  case True
  then show ?thesis
    using assms by (simp add: py_slice_def slice_index_def Let_def)
next
  case False
  then show ?thesis
    using assms by (auto simp: py_slice_def slice_index_def Let_def min_def nat_diff_distrib
        nat_add_distrib)
qed

lemma window_split:
  "xs = take a xs @ take b (drop a xs) @ drop (a + b) xs"
proof -
  have "take b (drop a xs) @ drop (a + b) xs = take b (drop a xs) @ drop b (drop a xs)"
    by (simp add: add.commute)
  also have "\<dots> = drop a xs"
    by (rule append_take_drop_id)
  finally have "take a xs @ take b (drop a xs) @ drop (a + b) xs = take a xs @ drop a xs"
    by simp
  then show ?thesis
    by simp
qed

lemma stub_use_case_simps [simp]:
  "uc_get_products (stub_use_case l f c u d) s = (l, s)"
  "uc_get_product_by_id (stub_use_case l f c u d) i s = (f, s)"
  "uc_create_product (stub_use_case l f c u d) b s = (c, s)"
  "uc_update_product (stub_use_case l f c u d) i ub s = (u, s)"
  "uc_delete_product (stub_use_case l f c u d) i s = (d, s)"
  by (simp_all add: stub_use_case_def)

section \<open>Pagination\<close>

lemma get_products_valid:
  assumes "1 \<le> page" and "1 \<le> size_page" and "size_page \<le> 100"
    and "uc_get_products uc s = (Inr all_products, s')"
  shows "get_products uc page size_page s =
           (Inr \<lparr>status_code = 200,
                 content = \<lparr>items = take (nat size_page)
                                      (drop (nat ((page - 1) * size_page)) all_products),
                            total_items = int (length all_products)\<rparr>\<rparr>, s')"
proof -
  have "0 \<le> (page - 1) * size_page"
    using assms(1,2) by simp
  then have "py_slice all_products ((page - 1) * size_page) ((page - 1) * size_page + size_page)
      = take (nat size_page) (drop (nat ((page - 1) * size_page)) all_products)"
    using assms(2) by (intro py_slice_window) simp_all
  then show ?thesis
    using assms by (simp add: get_products_def Let_def)
qed

text \<open>
  C1. For a valid request (\<open>page \<ge> 1\<close>, \<open>1 \<le> size_page \<le> 100\<close>) on a collection
  that the use case returns, the listing endpoint answers with the window of
  \<open>size_page\<close> items that starts at index \<open>(page - 1) * size_page\<close>, and the number of
  items is \<open>min size_page (max 0 (total_items - (page - 1) * size_page))\<close>. The witness
  is the scenario of identifiers 1 to 5 with \<open>page = 2\<close> and \<open>size_page = 2\<close>: the items
  are those with identifiers 3 and 4, and \<open>total_items\<close> is 5.
\<close>

theorem get_products_page_length:
  assumes "1 \<le> page" and "1 \<le> size_page" and "size_page \<le> 100"
    and "uc_get_products uc s = (Inr all_products, s')"
  shows "\<exists>r. get_products uc page size_page s = (Inr r, s')
           \<and> items (content r) =
               take (nat size_page) (drop (nat ((page - 1) * size_page)) all_products)
           \<and> total_items (content r) = int (length all_products)
           \<and> int (length (items (content r))) =
               min size_page (max 0 (total_items (content r) - (page - 1) * size_page))"
proof -
  have nonneg: "0 \<le> (page - 1) * size_page"
    using assms(1,2) by simp
  let ?r = "\<lparr>status_code = 200,
             content = \<lparr>items = take (nat size_page)
                                  (drop (nat ((page - 1) * size_page)) all_products),
                        total_items = int (length all_products)\<rparr>\<rparr>"
  have "get_products uc page size_page s = (Inr ?r, s')"
    using assms by (rule get_products_valid)
  moreover have "int (length (items (content ?r))) =
      min size_page (max 0 (total_items (content ?r) - (page - 1) * size_page))"
    using nonneg assms(2) by (simp add: min_def max_def) linarith
  ultimately show ?thesis
    by (intro exI [of _ ?r]) simp
qed

theorem get_products_page_length_witness:
  "(1::int) \<le> 2 \<and> (2::int) \<le> 100
   \<and> (\<exists>r. get_products
             (stub_use_case (Inr (map (\<lambda>i. \<lparr>ident = i, attrs = ''item''\<rparr>) [1, 2, 3, 4, 5]))
                (Inr None) (Inl (Exc StorageError [])) (Inr None) (Inr ()))
             2 2 () = (Inr r, ())
          \<and> map ident (items (content r)) = [3, 4]
          \<and> total_items (content r) = 5
          \<and> length (items (content r)) = 2)"
  using get_products_page_length [of 2 2
      "stub_use_case (Inr (map (\<lambda>i. \<lparr>ident = i, attrs = ''item''\<rparr>) [1, 2, 3, 4, 5]))
         (Inr None) (Inl (Exc StorageError [])) (Inr None) (Inr ())"
      "()" "map (\<lambda>i. \<lparr>ident = i, attrs = ''item''\<rparr>) [1, 2, 3, 4, 5]" "()"]
  by auto

text \<open>
  C2. For a valid request whose start index \<open>(page - 1) * size_page\<close> is at or beyond the
  length of the collection, the listing endpoint succeeds with an empty item list and
  \<open>total_items\<close> equal to the length of the whole collection; it raises nothing. The
  witness is \<open>page = 10\<close>, \<open>size_page = 10\<close> on five items.
\<close>

theorem get_products_beyond_last_page:
  assumes "1 \<le> page" and "1 \<le> size_page" and "size_page \<le> 100"
    and "uc_get_products uc s = (Inr all_products, s')"
    and "int (length all_products) \<le> (page - 1) * size_page"
  shows "get_products uc page size_page s =
           (Inr \<lparr>status_code = 200,
                 content = \<lparr>items = [], total_items = int (length all_products)\<rparr>\<rparr>, s')"
proof -
  have "length all_products \<le> nat ((page - 1) * size_page)"
    using assms(5) by linarith
  then have "drop (nat ((page - 1) * size_page)) all_products = []"
    by simp
  then show ?thesis
    using get_products_valid [OF assms(1-4)] by simp
qed

theorem get_products_beyond_last_page_witness:
  "(1::int) \<le> 10 \<and> (10::int) \<le> 100 \<and> int (length ''abcde'') \<le> (10 - 1) * 10
   \<and> get_products
        (stub_use_case (Inr ''abcde'') (Inr None) (Inl (Exc StorageError [])) (Inr None) (Inr ()))
        10 10 () =
       (Inr \<lparr>status_code = 200, content = \<lparr>items = [], total_items = 5\<rparr>\<rparr>, ())"
  using get_products_beyond_last_page [of 10 10
      "stub_use_case (Inr ''abcde'') (Inr None) (Inl (Exc StorageError [])) (Inr None) (Inr ())"
      "()" "''abcde''" "()"]
  by simp

text \<open>
  C3. For a valid request, \<open>total_items\<close> of the answer is the length of the whole
  collection the use case returned, whatever \<open>page\<close> and \<open>size_page\<close> are.
\<close>

theorem get_products_total_items:
  assumes "1 \<le> page" and "1 \<le> size_page" and "size_page \<le> 100"
    and "uc_get_products uc s = (Inr all_products, s')"
  shows "\<exists>r. get_products uc page size_page s = (Inr r, s')
           \<and> total_items (content r) = int (length all_products)"
  using get_products_valid [OF assms] by simp

theorem get_products_total_items_witness:
  "(1::int) \<le> 3 \<and> (1::int) \<le> 100
   \<and> (\<exists>r. get_products
             (stub_use_case (Inr ''abcde'') (Inr None) (Inl (Exc StorageError [])) (Inr None)
                (Inr ()))
             3 1 () = (Inr r, ())
          \<and> total_items (content r) = 5)
   \<and> (\<exists>r. get_products
             (stub_use_case (Inr ''abcde'') (Inr None) (Inl (Exc StorageError [])) (Inr None)
                (Inr ()))
             1 100 () = (Inr r, ())
          \<and> total_items (content r) = 5)"
  using get_products_total_items [of 3 1
      "stub_use_case (Inr ''abcde'') (Inr None) (Inl (Exc StorageError [])) (Inr None) (Inr ())"
      "()" "''abcde''" "()"]
    get_products_total_items [of 1 100
      "stub_use_case (Inr ''abcde'') (Inr None) (Inl (Exc StorageError [])) (Inr None) (Inr ())"
      "()" "''abcde''" "()"]
  by simp

text \<open>
  C4. For a valid request, the items of the answer are exactly the window of the whole
  collection that \<open>(page, size_page)\<close> determines: the \<open>size_page\<close> elements that
  follow the first \<open>(page - 1) * size_page\<close>, or as many of them as the collection has.
  They are at most \<open>size_page\<close> many, and the collection is the elements before the
  window, then the items, then the elements after it.
\<close>

theorem get_products_contiguous_slice:
  assumes "1 \<le> page" and "1 \<le> size_page" and "size_page \<le> 100"
    and "uc_get_products uc s = (Inr all_products, s')"
  shows "\<exists>r. get_products uc page size_page s = (Inr r, s')
           \<and> items (content r) =
               take (nat size_page) (drop (nat ((page - 1) * size_page)) all_products)
           \<and> int (length (items (content r))) \<le> size_page
           \<and> all_products =
               take (nat ((page - 1) * size_page)) all_products
               @ items (content r)
               @ drop (nat ((page - 1) * size_page) + nat size_page) all_products"
proof -
  let ?a = "nat ((page - 1) * size_page)" and ?b = "nat size_page"
  let ?r = "\<lparr>status_code = 200,
             content = \<lparr>items = take ?b (drop ?a all_products),
                        total_items = int (length all_products)\<rparr>\<rparr>"
  have run: "get_products uc page size_page s = (Inr ?r, s')"
    using assms by (rule get_products_valid)
  have window: "items (content ?r) = take ?b (drop ?a all_products)"
    by simp
  have len: "int (length (items (content ?r))) \<le> size_page"
    using assms(2) by simp
  have split: "all_products = take ?a all_products @ items (content ?r) @ drop (?a + ?b) all_products"
    using window_split [of all_products ?a ?b] by simp
  from run window len split show ?thesis
    by blast
qed

theorem get_products_contiguous_slice_witness:
  "(1::int) \<le> 2 \<and> (2::int) \<le> 100
   \<and> (\<exists>r. get_products
             (stub_use_case (Inr ''abcde'') (Inr None) (Inl (Exc StorageError [])) (Inr None)
                (Inr ()))
             2 2 () = (Inr r, ())
          \<and> items (content r) = ''cd''
          \<and> int (length (items (content r))) \<le> 2
          \<and> ''abcde'' = ''ab'' @ items (content r) @ ''e'')"
  using get_products_contiguous_slice [of 2 2
      "stub_use_case (Inr ''abcde'') (Inr None) (Inl (Exc StorageError [])) (Inr None) (Inr ())"
      "()" "''abcde''" "()"]
  by auto

section \<open>Single-product endpoints\<close>










section \<open>Deletion\<close>

text \<open>
  The delete endpoint never raises an \<^verbatim>\<open>HTTPException\<close> of its own: it answers 200, or
  an exception of the use case passes through it.
\<close>

lemma delete_product_never_404:
  "fst (delete_product uc product_id s) \<noteq> Inl (HTTPException code detail)"
  by (simp add: delete_product_def split: prod.splits sum.splits)

text \<open>
  C5. The delete endpoint should fail with 404 when no product has the identifier, as its
  docstring says and as the lookup and update endpoints do. Run on a use case that holds
  no product 7 (its lookup returns \<^verbatim>\<open>None\<close>, so the lookup endpoint answers 404) and
  whose \<^verbatim>\<open>delete_product\<close> returns \<^verbatim>\<open>None\<close> as the interface declares, the delete
  endpoint answers 200 with the confirmation message.
\<close>

theorem delete_product_absent_is_200:
  "get_product
     (stub_use_case (Inr []) (Inr None) (Inl (Exc ValidationError [])) (Inr None) (Inr ())
        :: (unit, string, string, string) ProductsUseCase) 7 ()
     = (Inl (HTTPException 404 ''Product not found''), ())
   \<and> delete_product
     (stub_use_case (Inr []) (Inr None) (Inl (Exc ValidationError [])) (Inr None) (Inr ())
        :: (unit, string, string, string) ProductsUseCase) 7 ()
     = (Inr \<lparr>status_code = 200,
             content = [(''message'', ''Product deleted successfully'')]\<rparr>, ())"
  by (simp add: get_product_def delete_product_def)

section \<open>Exceptions of the storage layer\<close>

text \<open>
  C6, as stated, fails on the creation endpoint: a \<open>StorageError\<close> raised under
  \<^verbatim>\<open>POST /products\<close> is caught by \<^verbatim>\<open>except Exception\<close> and leaves as
  \<^verbatim>\<open>HTTPException(400)\<close>, not as the \<open>StorageError\<close> it was.
\<close>

theorem create_product_hides_storage_error:
  "create_product
     (stub_use_case (Inr []) (Inr None) (Inl (Exc StorageError ''database is locked''))
        (Inr None) (Inr ())
        :: (unit, string, string, string) ProductsUseCase) ''pen'' ()
     = (Inl (HTTPException 400 ''database is locked''), ())
   \<and> create_product
     (stub_use_case (Inr []) (Inr None) (Inl (Exc StorageError ''database is locked''))
        (Inr None) (Inr ())
        :: (unit, string, string, string) ProductsUseCase) ''pen'' ()
     \<noteq> (Inl (Uncaught (Exc StorageError ''database is locked'')), ())"
  by (simp add: create_product_def)

text \<open>
  C6, amended. A \<open>StorageError\<close> raised by the use case passes unchanged through the
  listing, lookup, update and delete endpoints, with the store as the use case left it.
  The creation endpoint catches every \<^verbatim>\<open>Exception\<close>, and a \<open>StorageError\<close> is one,
  and raises \<^verbatim>\<open>HTTPException(400)\<close> whose detail is the text of the exception.
\<close>

theorem storage_error_outcomes:
  fixes uc :: "('s, 'p, 'c, 'u) ProductsUseCase"
  shows
  "(0 < page \<and> 0 < size_page \<and> size_page \<le> 100
      \<and> uc_get_products uc s = (Inl (Exc StorageError msg), s')
     \<longrightarrow> get_products uc page size_page s = (Inl (Uncaught (Exc StorageError msg)), s'))
   \<and> (uc_get_product_by_id uc product_id s = (Inl (Exc StorageError msg), s')
     \<longrightarrow> get_product uc product_id s = (Inl (Uncaught (Exc StorageError msg)), s'))
   \<and> (uc_update_product uc product_id update_body s = (Inl (Exc StorageError msg), s')
     \<longrightarrow> update_product uc product_id update_body s
          = (Inl (Uncaught (Exc StorageError msg)), s'))
   \<and> (uc_delete_product uc product_id s = (Inl (Exc StorageError msg), s')
     \<longrightarrow> delete_product uc product_id s = (Inl (Uncaught (Exc StorageError msg)), s'))
   \<and> (uc_create_product uc product_body s = (Inl e, s') \<and> is_Exception e
     \<longrightarrow> create_product uc product_body s = (Inl (HTTPException 400 (str_exc e)), s'))
   \<and> is_Exception (Exc StorageError msg)
   \<and> str_exc (Exc StorageError msg) = msg"
  by (simp add: get_products_def get_product_def update_product_def delete_product_def
      create_product_def)

theorem storage_error_outcomes_witness:
  "get_products
     (stub_use_case (Inl (Exc StorageError ''down'')) (Inl (Exc StorageError ''down''))
        (Inl (Exc StorageError ''down'')) (Inl (Exc StorageError ''down''))
        (Inl (Exc StorageError ''down''))
        :: (unit, string, string, string) ProductsUseCase) 1 10 ()
     = (Inl (Uncaught (Exc StorageError ''down'')), ())
   \<and> get_product
     (stub_use_case (Inl (Exc StorageError ''down'')) (Inl (Exc StorageError ''down''))
        (Inl (Exc StorageError ''down'')) (Inl (Exc StorageError ''down''))
        (Inl (Exc StorageError ''down''))
        :: (unit, string, string, string) ProductsUseCase) 7 ()
     = (Inl (Uncaught (Exc StorageError ''down'')), ())
   \<and> update_product
     (stub_use_case (Inl (Exc StorageError ''down'')) (Inl (Exc StorageError ''down''))
        (Inl (Exc StorageError ''down'')) (Inl (Exc StorageError ''down''))
        (Inl (Exc StorageError ''down''))
        :: (unit, string, string, string) ProductsUseCase) 7 ''ink'' ()
     = (Inl (Uncaught (Exc StorageError ''down'')), ())
   \<and> delete_product
     (stub_use_case (Inl (Exc StorageError ''down'')) (Inl (Exc StorageError ''down''))
        (Inl (Exc StorageError ''down'')) (Inl (Exc StorageError ''down''))
        (Inl (Exc StorageError ''down''))
        :: (unit, string, string, string) ProductsUseCase) 7 ()
     = (Inl (Uncaught (Exc StorageError ''down'')), ())
   \<and> create_product
     (stub_use_case (Inl (Exc StorageError ''down'')) (Inl (Exc StorageError ''down''))
        (Inl (Exc StorageError ''down'')) (Inl (Exc StorageError ''down''))
        (Inl (Exc StorageError ''down''))
        :: (unit, string, string, string) ProductsUseCase) ''pen'' ()
     = (Inl (HTTPException 400 ''down''), ())
   \<and> create_product
     (stub_use_case (Inr []) (Inr None) (Inl (Exc ValidationError ''name is required''))
        (Inr None) (Inr ())
        :: (unit, string, string, string) ProductsUseCase) [] ()
     = (Inl (HTTPException 400 ''name is required''), ())"
  using storage_error_outcomes [of 1 10
      "stub_use_case (Inl (Exc StorageError ''down'')) (Inl (Exc StorageError ''down''))
        (Inl (Exc StorageError ''down'')) (Inl (Exc StorageError ''down''))
        (Inl (Exc StorageError ''down''))
        :: (unit, string, string, string) ProductsUseCase"
      "()" "''down''" "()" 7 "''ink''" "''pen''" "Exc StorageError ''down''"]
    storage_error_outcomes [of 1 10
      "stub_use_case (Inr []) (Inr None) (Inl (Exc ValidationError ''name is required''))
        (Inr None) (Inr ())
        :: (unit, string, string, string) ProductsUseCase"
      "()" "''down''" "()" 7 "''ink''" "[]" "Exc ValidationError ''name is required''"]
  by simp

section \<open>Round trip over the reference repository\<close>

lemma find_append_fresh:
  assumes "\<forall>y \<in> set xs. \<not> P y" and "P x"
  shows "find P (xs @ [x]) = Some x"
  using assms by (induction xs) simp_all

lemma store_ok_empty: "store_ok \<lparr>rows = [], next_id = n\<rparr>"
  by (simp add: store_ok_def)

lemma store_ok_create:
  assumes "store_ok s"
  shows "store_ok (snd (mem_create_product valid product s))"
proof (cases "valid product")
  case False
  then show ?thesis
    using assms by (simp add: mem_create_product_def)
next
  case True
  have "\<forall>p \<in> set (rows s). ident p < next_id s"
    using assms by (simp add: store_ok_def list_all_iff)
  then have "next_id s \<notin> ident ` set (rows s)" and "\<forall>p \<in> set (rows s). ident p < next_id s + 1"
    by auto
  then show ?thesis
    using assms True by (simp add: mem_create_product_def store_ok_def list_all_iff Let_def)
qed

lemma store_ok_delete:
  assumes "store_ok s"
  shows "store_ok (snd (mem_delete_product product_id s))"
  using assms
  by (auto simp: mem_delete_product_def store_ok_def list_all_iff distinct_map_filter
      split: option.splits)

lemma store_ok_update:
  assumes "store_ok s"
  shows "store_ok (snd (mem_update_product apply_update product_id update_body s))"
proof (cases "find (\<lambda>p. ident p = product_id) (rows s)")
  case None
  then show ?thesis
    using assms by (simp add: mem_update_product_def)
next
  case (Some p)
  let ?p' = "p\<lparr>attrs := apply_update update_body (attrs p)\<rparr>"
  let ?f = "\<lambda>q. if ident q = product_id then ?p' else q"
  from Some have same: "ident p = product_id"
    by (auto simp: find_Some_iff)
  then have "ident \<circ> ?f = ident"
    by (auto simp: fun_eq_iff)
  then have ids: "map ident (map ?f (rows s)) = map ident (rows s)"
    by simp
  have "\<forall>q \<in> set (rows s). ident (?f q) < next_id s"
    using assms same by (auto simp: store_ok_def list_all_iff)
  then have below: "list_all (\<lambda>q. ident q < next_id s) (map ?f (rows s))"
    by (auto simp: list_all_iff split: if_splits)
  have "snd (mem_update_product apply_update product_id update_body s)
      = s\<lparr>rows := map ?f (rows s)\<rparr>"
    using Some by (simp add: mem_update_product_def Let_def)
  moreover have "distinct (map ident (map ?f (rows s)))"
    unfolding ids using assms by (simp add: store_ok_def)
  ultimately show ?thesis
    using below by (simp add: store_ok_def del: map_map)
qed

text \<open>
  C9. Over the reference repository and the forwarding use case, in a store whose
  identifiers are distinct and below the next fresh one: creating a product from a valid
  request answers 201 with a product that carries the request's attributes and the fresh
  identifier, and the lookup endpoint, asked for that identifier in the store after the
  creation, answers 200 with the same product.
\<close>

theorem create_then_get_roundtrip:
  assumes "store_ok s" and "valid product"
  shows "\<exists>p s'. create_product (ProductsUseCase_init valid apply_update) product s
                   = (Inr \<lparr>status_code = 201, content = p\<rparr>, s')
           \<and> p = \<lparr>ident = next_id s, attrs = product\<rparr>
           \<and> get_product (ProductsUseCase_init valid apply_update) (ident p) s'
                   = (Inr \<lparr>status_code = 200, content = p\<rparr>, s')"
proof -
  let ?p = "\<lparr>ident = next_id s, attrs = product\<rparr>"
  let ?s' = "\<lparr>rows = rows s @ [?p], next_id = next_id s + 1\<rparr>"
  let ?uc = "ProductsUseCase_init valid apply_update"
  have created: "create_product ?uc product s = (Inr \<lparr>status_code = 201, content = ?p\<rparr>, ?s')"
    using assms(2)
    by (simp add: create_product_def ProductsUseCase_init_def mem_create_product_def Let_def)
  have "\<forall>q \<in> set (rows s). ident q \<noteq> next_id s"
    using assms(1) by (auto simp: store_ok_def list_all_iff)
  then have "find (\<lambda>q. ident q = next_id s) (rows s @ [?p]) = Some ?p"
    by (intro find_append_fresh) simp_all
  then have fetched: "get_product ?uc (ident ?p) ?s' = (Inr \<lparr>status_code = 200, content = ?p\<rparr>, ?s')"
    by (simp add: get_product_def ProductsUseCase_init_def mem_get_product_by_id_def)
  from created fetched show ?thesis
    by blast
qed

theorem create_then_get_roundtrip_witness:
  "store_ok \<lparr>rows = [\<lparr>ident = 1, attrs = ''pen''\<rparr>], next_id = 2\<rparr> \<and> ''ink'' \<noteq> []
   \<and> create_product (ProductsUseCase_init (\<lambda>b. b \<noteq> []) (\<lambda>u b. u)) ''ink''
        \<lparr>rows = [\<lparr>ident = 1, attrs = ''pen''\<rparr>], next_id = 2\<rparr>
      = (Inr \<lparr>status_code = 201, content = \<lparr>ident = 2, attrs = ''ink''\<rparr>\<rparr>,
         \<lparr>rows = [\<lparr>ident = 1, attrs = ''pen''\<rparr>, \<lparr>ident = 2, attrs = ''ink''\<rparr>], next_id = 3\<rparr>)
   \<and> get_product (ProductsUseCase_init (\<lambda>b. b \<noteq> []) (\<lambda>u b. u)) 2
        \<lparr>rows = [\<lparr>ident = 1, attrs = ''pen''\<rparr>, \<lparr>ident = 2, attrs = ''ink''\<rparr>], next_id = 3\<rparr>
      = (Inr \<lparr>status_code = 200, content = \<lparr>ident = 2, attrs = ''ink''\<rparr>\<rparr>,
         \<lparr>rows = [\<lparr>ident = 1, attrs = ''pen''\<rparr>, \<lparr>ident = 2, attrs = ''ink''\<rparr>], next_id = 3\<rparr>)"
proof -
  have ok: "store_ok \<lparr>rows = [\<lparr>ident = 1, attrs = ''pen''\<rparr>], next_id = 2\<rparr>"
    by (simp add: store_ok_def)
  have valid: "(\<lambda>b. b \<noteq> []) ''ink''"
    by simp
  have run: "create_product (ProductsUseCase_init (\<lambda>b. b \<noteq> []) (\<lambda>u b. u)) ''ink''
        \<lparr>rows = [\<lparr>ident = 1, attrs = ''pen''\<rparr>], next_id = 2\<rparr>
      = (Inr \<lparr>status_code = 201, content = \<lparr>ident = 2, attrs = ''ink''\<rparr>\<rparr>,
         \<lparr>rows = [\<lparr>ident = 1, attrs = ''pen''\<rparr>, \<lparr>ident = 2, attrs = ''ink''\<rparr>], next_id = 3\<rparr>)"
    by (simp add: create_product_def ProductsUseCase_init_def mem_create_product_def Let_def)
  from create_then_get_roundtrip [OF ok, of "\<lambda>b. b \<noteq> []" "''ink''" "\<lambda>u b. u", OF valid]
  show ?thesis
    using ok run by auto
qed

section \<open>The composition root cannot build its repository\<close>

text \<open>
  C10. \<^verbatim>\<open>products_repository = ProductsRepository(db_url)\<close> calls the abstract base
  class itself. All five of its methods are abstract, so no call of the class, with
  whatever arguments, yields an instance: with the argument of the composition root the
  call fails as the class takes no arguments, and with none it fails as the class is
  abstract. The module never obtains the repository its endpoints rely on.
\<close>

theorem composition_root_fails:
  "products_repository = Inl (TakesNoArguments ''ProductsRepository'')
   \<and> instantiate ProductsRepository_class [] =
       Inl (AbstractClass ''ProductsRepository''
             [''get_products'', ''get_product_by_id'', ''create_product'', ''update_product'',
              ''delete_product''])
   \<and> abstractmethods ProductsRepository_class = map method_name (methods ProductsRepository_class)
   \<and> isl (instantiate ProductsRepository_class args)"
  by (simp add: products_repository_def instantiate_def abstractmethods_def
      ProductsRepository_class_def db_url_def)

end
